theory Spec2Isabelle
  imports Main "HOL-Library.Word"
begin

section \<open>JavaScript strings and the built-ins used by \<open>main.tsx\<close>\<close>

text \<open>
  A JavaScript string is a sequence of UTF-16 code units. String literals of the source are
  ASCII and are written \<open>js ''...''\<close>.
\<close>

type_synonym jsstring = "16 word list"

definition js :: "string \<Rightarrow> jsstring" where
  "js s = map of_char s"

text \<open>\<open>s.startsWith(p)\<close>.\<close>

definition startsWith :: "jsstring \<Rightarrow> jsstring \<Rightarrow> bool" where
  "startsWith s p = (take (length p) s = p)"

text \<open>
  \<open>String.prototype.trim\<close> strips WhiteSpace and LineTerminator code points from both
  ends: TAB, LF, VT, FF, CR, SPACE, NBSP, U+1680, U+2000..U+200A, U+2028, U+2029, U+202F,
  U+205F, U+3000 and U+FEFF. All of them are single code units.
\<close>

definition isWhiteSpace :: "16 word \<Rightarrow> bool" where
  "isWhiteSpace c =
     (c = 0x9 \<or> c = 0xA \<or> c = 0xB \<or> c = 0xC \<or> c = 0xD \<or> c = 0x20 \<or> c = 0xA0 \<or>
      c = 0x1680 \<or> (0x2000 \<le> c \<and> c \<le> 0x200A) \<or> c = 0x2028 \<or> c = 0x2029 \<or>
      c = 0x202F \<or> c = 0x205F \<or> c = 0x3000 \<or> c = 0xFEFF)"

definition trim :: "jsstring \<Rightarrow> jsstring" where
  "trim s = rev (dropWhile isWhiteSpace (rev (dropWhile isWhiteSpace s)))"

text \<open>Values thrown by the built-ins and by the external collaborators.\<close>

datatype js_error = URIError | Thrown jsstring

subsection \<open>\<open>encodeURIComponent\<close>\<close>

text \<open>
  ECMA-262, abstract operation Encode with the unescaped set of \<open>encodeURIComponent\<close>:
  the ASCII letters and digits and \<open>- _ . ! ~ * ' ( )\<close> are copied; every other code point
  is written as the percent-escaped octets of its UTF-8 form, with upper-case hex digits;
  an unpaired surrogate throws URIError.
\<close>

definition uriUnescaped :: "16 word \<Rightarrow> bool" where
  "uriUnescaped c =
     ((0x41 \<le> c \<and> c \<le> 0x5A) \<or> (0x61 \<le> c \<and> c \<le> 0x7A) \<or> (0x30 \<le> c \<and> c \<le> 0x39) \<or>
      c = 0x2D \<or> c = 0x5F \<or> c = 0x2E \<or> c = 0x21 \<or> c = 0x7E \<or> c = 0x2A \<or>
      c = 0x27 \<or> c = 0x28 \<or> c = 0x29)"

definition isLeadingSurrogate :: "16 word \<Rightarrow> bool" where
  "isLeadingSurrogate c = (0xD800 \<le> c \<and> c \<le> 0xDBFF)"

definition isTrailingSurrogate :: "16 word \<Rightarrow> bool" where
  "isTrailingSurrogate c = (0xDC00 \<le> c \<and> c \<le> 0xDFFF)"

definition surrogatePairToCodePoint :: "16 word \<Rightarrow> 16 word \<Rightarrow> nat" where
  "surrogatePairToCodePoint lead trail =
     (unat lead - 0xD800) * 0x400 + (unat trail - 0xDC00) + 0x10000"

definition utf8 :: "nat \<Rightarrow> nat list" where
  "utf8 cp =
     (if cp < 0x80 then [cp]
      else if cp < 0x800 then [0xC0 + cp div 0x40, 0x80 + cp mod 0x40]
      else if cp < 0x10000 then
        [0xE0 + cp div 0x1000, 0x80 + (cp div 0x40) mod 0x40, 0x80 + cp mod 0x40]
      else
        [0xF0 + cp div 0x40000, 0x80 + (cp div 0x1000) mod 0x40,
         0x80 + (cp div 0x40) mod 0x40, 0x80 + cp mod 0x40])"

definition hexDigit :: "nat \<Rightarrow> 16 word" where
  "hexDigit d = (if d < 10 then 0x30 + of_nat d else 0x41 + of_nat (d - 10))"

definition percentOctet :: "nat \<Rightarrow> jsstring" where
  "percentOctet b = [0x25, hexDigit (b div 16), hexDigit (b mod 16)]"

definition escapeCodePoint :: "nat \<Rightarrow> jsstring" where
  "escapeCodePoint cp = concat (map percentOctet (utf8 cp))"

definition prepend :: "jsstring \<Rightarrow> js_error + jsstring \<Rightarrow> js_error + jsstring" where
  "prepend p r = (case r of Inl e \<Rightarrow> Inl e | Inr s \<Rightarrow> Inr (p @ s))"

fun encodeURIComponent :: "jsstring \<Rightarrow> js_error + jsstring" where
  "encodeURIComponent [] = Inr []"
| "encodeURIComponent (c # cs) =
     (if uriUnescaped c then prepend [c] (encodeURIComponent cs)
      else if isTrailingSurrogate c then Inl URIError
      else if isLeadingSurrogate c then
        (case cs of
           [] \<Rightarrow> Inl URIError
         | d # ds \<Rightarrow>
             if isTrailingSurrogate d
             then prepend (escapeCodePoint (surrogatePairToCodePoint c d)) (encodeURIComponent ds)
             else Inl URIError)
      else prepend (escapeCodePoint (unat c)) (encodeURIComponent cs))"

text \<open>\<open>String.prototype.isWellFormed\<close>: the string has no unpaired surrogate.\<close>

fun isWellFormed :: "jsstring \<Rightarrow> bool" where
  "isWellFormed [] = True"
| "isWellFormed (c # cs) =
     (if isTrailingSurrogate c then False
      else if isLeadingSurrogate c then
        (case cs of [] \<Rightarrow> False | d # ds \<Rightarrow> isTrailingSurrogate d \<and> isWellFormed ds)
      else isWellFormed cs)"

section \<open>Module constants (lines 19 to 24)\<close>

text \<open>
  \<open>isLocalhost\<close>, \<open>COORDINATOR_URL\<close> and \<open>COORDINATOR_URL_WS\<close> are module-level \<open>const\<close>s:
  they are evaluated once, when the module is loaded, from \<open>location.hostname\<close>.
\<close>

record config =
  isLocalhost :: bool
  COORDINATOR_URL :: jsstring
  COORDINATOR_URL_WS :: jsstring

definition module_init :: "jsstring \<Rightarrow> config" where
  "module_init hostname =
     (let l = (hostname = js ''localhost'' \<or> startsWith hostname (js ''192.168''));
          u = (if l then hostname @ js '':8787'' else js ''sqlsync.orbitinghail.workers.dev'')
      in \<lparr>isLocalhost = l,
          COORDINATOR_URL = u,
          COORDINATOR_URL_WS = (if l then js ''ws'' else js ''wss'') @ js ''://'' @ u\<rparr>)"

section \<open>Environment and state\<close>

text \<open>
  A call of \<open>fetch\<close> is recorded as a request: the URL string handed to \<open>fetch\<close> and the
  method. The answer of the network is a parameter: the promise rejects, or it resolves to a
  response with a status and a body whose \<open>text()\<close> may itself reject. The identifier codec
  (\<open>journalIdFromString\<close>, \<open>journalIdToString\<close>) is imported from another package and is a
  parameter as well; either function may throw.
\<close>

record request =
  http_method :: jsstring
  url :: jsstring

record response =
  status :: nat
  body :: "js_error + jsstring"

record 'id env =
  location_protocol :: jsstring
  network :: "request list \<Rightarrow> request \<Rightarrow> js_error + response"
  journalIdFromString :: "jsstring \<Rightarrow> js_error + 'id"
  journalIdToString :: "'id \<Rightarrow> js_error + jsstring"

record state =
  cfg :: config
  requests :: "request list"
  console :: "jsstring list"

definition start :: "jsstring \<Rightarrow> state" where
  "start hostname = \<lparr>cfg = module_init hostname, requests = [], console = []\<rparr>"

section \<open>\<open>newDocumentId\<close> (lines 26 to 35)\<close>

text \<open>
  The parameter has the default value \<open>""\<close>, which JavaScript uses when the argument is
  \<open>undefined\<close> (\<open>None\<close>). Nothing is caught: an exception of \<open>encodeURIComponent\<close>, a
  rejection of \<open>fetch\<close> or of \<open>response.text()\<close> and an exception of the codec all
  leave the function.
\<close>

definition request_url :: "'id env \<Rightarrow> state \<Rightarrow> jsstring \<Rightarrow> js_error + jsstring" where
  "request_url env st name =
     (let url0 = location_protocol env @ js ''//'' @ COORDINATOR_URL (cfg st) @ js ''/new''
      in if length (trim name) > 0
         then (case encodeURIComponent name of
                 Inl e \<Rightarrow> Inl e
               | Inr enc \<Rightarrow> Inr (url0 @ js ''/'' @ enc))
         else Inr url0)"

definition newDocumentId ::
  "'id env \<Rightarrow> jsstring option \<Rightarrow> state \<Rightarrow> state \<times> (js_error + 'id)" where
  "newDocumentId env name_arg st =
     (let name = (case name_arg of None \<Rightarrow> [] | Some n \<Rightarrow> n)
      in case request_url env st name of
           Inl e \<Rightarrow> (st, Inl e)
         | Inr u \<Rightarrow>
             (let req = \<lparr>http_method = js ''POST'', url = u\<rparr>;
                  st' = st\<lparr>requests := requests st @ [req]\<rparr>
              in case network env (requests st) req of
                   Inl e \<Rightarrow> (st', Inl e)
                 | Inr resp \<Rightarrow>
                     (case body resp of
                        Inl e \<Rightarrow> (st', Inl e)
                      | Inr t \<Rightarrow> (st', journalIdFromString env t))))"

section \<open>\<open>DocRoute\<close> (lines 37 to 46)\<close>

text \<open>
  \<open>useParams()\<close> gives the parameters of the matched route; a missing key reads as
  \<open>undefined\<close> (\<open>None\<close>). \<open>!docId\<close> holds for \<open>undefined\<close> and for the empty string.
  The component returns \<open><pre style={{ color: "red" }}>...</pre>\<close> or \<open><App docId=... />\<close>.
\<close>

type_synonym params = "string \<rightharpoonup> jsstring"

datatype 'id element = Pre jsstring jsstring | App 'id

datatype 'id outcome = Redirect jsstring | Render "'id element" | NoMatch

definition falsy :: "jsstring option \<Rightarrow> bool" where
  "falsy v = (case v of None \<Rightarrow> True | Some s \<Rightarrow> s = [])"

definition missing_docId :: "state \<Rightarrow> state \<times> (js_error + 'id outcome)" where
  "missing_docId st =
     (st\<lparr>console := console st @ [js ''doc id not found in params'']\<rparr>,
      Inr (Render (Pre (js ''red'') (js ''ERROR: doc id not found in params''))))"

definition DocRoute :: "'id env \<Rightarrow> params \<Rightarrow> state \<Rightarrow> state \<times> (js_error + 'id outcome)" where
  "DocRoute env ps st =
     (case ps ''docId'' of
        None \<Rightarrow> missing_docId st
      | Some docId \<Rightarrow>
          if falsy (Some docId) then missing_docId st
          else (case journalIdFromString env docId of
                  Inl e \<Rightarrow> (st, Inl e)
                | Inr i \<Rightarrow> (st, Inr (Render (App i)))))"

section \<open>The route table (lines 48 to 67)\<close>

text \<open>
  Both loaders await \<open>newDocumentId\<close> and return \<open>redirect(`/${journalIdToString(docId)}`)\<close>;
  neither has a \<open>try\<close>.
\<close>

definition redirect_to :: "'id env \<Rightarrow> 'id \<Rightarrow> state \<Rightarrow> state \<times> (js_error + 'id outcome)" where
  "redirect_to env docId st =
     (case journalIdToString env docId of
        Inl e \<Rightarrow> (st, Inl e)
      | Inr s \<Rightarrow> (st, Inr (Redirect (js ''/'' @ s))))"

definition loader_root :: "'id env \<Rightarrow> params \<Rightarrow> state \<Rightarrow> state \<times> (js_error + 'id outcome)" where
  "loader_root env ps st =
     (case newDocumentId env None st of
        (st', Inl e) \<Rightarrow> (st', Inl e)
      | (st', Inr docId) \<Rightarrow> redirect_to env docId st')"

definition loader_named :: "'id env \<Rightarrow> params \<Rightarrow> state \<Rightarrow> state \<times> (js_error + 'id outcome)" where
  "loader_named env ps st =
     (case newDocumentId env (ps ''name'') st of
        (st', Inl e) \<Rightarrow> (st', Inl e)
      | (st', Inr docId) \<Rightarrow> redirect_to env docId st')"

text \<open>
  A path pattern is a list of segments: \<open>"/"\<close> is \<open>[]\<close>, \<open>"/named/:name"\<close> is
  \<open>[Static named, Dynamic name]\<close> and \<open>"/:docId"\<close> is \<open>[Dynamic docId]\<close>.
\<close>

datatype segment = Static jsstring | Dynamic string

datatype 'id resolution =
    Loader "params \<Rightarrow> state \<Rightarrow> state \<times> (js_error + 'id outcome)"
  | Element "params \<Rightarrow> state \<Rightarrow> state \<times> (js_error + 'id outcome)"

record 'id route =
  path :: "segment list"
  resolution :: "'id resolution"

text \<open>The handlers are closures over the module's imports and the ambient \<open>location\<close>.\<close>

definition router :: "'id env \<Rightarrow> 'id route list" where
  "router env =
     [\<lparr>path = [], resolution = Loader (loader_root env)\<rparr>,
      \<lparr>path = [Static (js ''named''), Dynamic ''name''],
       resolution = Loader (loader_named env)\<rparr>,
      \<lparr>path = [Dynamic ''docId''], resolution = Element (DocRoute env)\<rparr>]"

text \<open>
  Matching is done by the routing library. A location is given as the list of its decoded,
  non-empty path segments. A static segment is compared without regard to ASCII case (the
  library's default), a dynamic segment binds one non-empty segment, and the whole path
  must be consumed. The three patterns have different lengths, so at most one of them
  matches a location and the library's ranking does not come into play.
\<close>

definition toLowerASCII :: "16 word \<Rightarrow> 16 word" where
  "toLowerASCII c = (if 0x41 \<le> c \<and> c \<le> 0x5A then c + 0x20 else c)"

fun matchPath :: "segment list \<Rightarrow> jsstring list \<Rightarrow> params option" where
  "matchPath [] [] = Some Map.empty"
| "matchPath (Static s # ps) (x # xs) =
     (if map toLowerASCII x = map toLowerASCII s then matchPath ps xs else None)"
| "matchPath (Dynamic k # ps) (x # xs) =
     (if x = [] then None
      else (case matchPath ps xs of None \<Rightarrow> None | Some m \<Rightarrow> Some (m(k \<mapsto> x))))"
| "matchPath _ _ = None"

fun matchRoutes :: "'id route list \<Rightarrow> jsstring list \<Rightarrow> ('id route \<times> params) option" where
  "matchRoutes [] xs = None"
| "matchRoutes (r # rs) xs =
     (case matchPath (path r) xs of
        Some m \<Rightarrow> Some (r, m)
      | None \<Rightarrow> matchRoutes rs xs)"

definition navigate :: "'id env \<Rightarrow> jsstring list \<Rightarrow> state \<Rightarrow> state \<times> (js_error + 'id outcome)" where
  "navigate env segs st =
     (case matchRoutes (router env) segs of
        None \<Rightarrow> (st, Inr NoMatch)
      | Some (r, ps) \<Rightarrow>
          (case resolution r of
             Loader f \<Rightarrow> f ps st
           | Element g \<Rightarrow> g ps st))"

text \<open>A browsing session: one location after the other, on the same module instance.\<close>

fun navigations :: "'id env \<Rightarrow> jsstring list list \<Rightarrow> state \<Rightarrow> state" where
  "navigations env [] st = st"
| "navigations env (segs # rest) st = navigations env rest (fst (navigate env segs st))"

section \<open>Sample environments\<close>

text \<open>
  Concrete collaborators on which the model is evaluated: a codec whose identifiers are the
  non-empty strings of ASCII letters and digits, kept as they are, and four coordinators:
  one that answers 200 with the identifier \<open>abc123\<close>, one that answers 500 with the same
  body, one that answers 200 with a body that is no identifier, and one that cannot be
  reached.
\<close>

definition isAlphaNum :: "16 word \<Rightarrow> bool" where
  "isAlphaNum c =
     ((0x41 \<le> c \<and> c \<le> 0x5A) \<or> (0x61 \<le> c \<and> c \<le> 0x7A) \<or> (0x30 \<le> c \<and> c \<le> 0x39))"

definition sample_parse :: "jsstring \<Rightarrow> js_error + jsstring" where
  "sample_parse s =
     (if s \<noteq> [] \<and> list_all isAlphaNum s then Inr s
      else Inl (Thrown (js ''invalid journal id'')))"

definition coordinator_ok :: "request list \<Rightarrow> request \<Rightarrow> js_error + response" where
  "coordinator_ok history req = Inr \<lparr>status = 200, body = Inr (js ''abc123'')\<rparr>"

definition coordinator_500 :: "request list \<Rightarrow> request \<Rightarrow> js_error + response" where
  "coordinator_500 history req = Inr \<lparr>status = 500, body = Inr (js ''abc123'')\<rparr>"

definition coordinator_html :: "request list \<Rightarrow> request \<Rightarrow> js_error + response" where
  "coordinator_html history req = Inr \<lparr>status = 200, body = Inr (js ''<html></html>'')\<rparr>"

definition coordinator_down :: "request list \<Rightarrow> request \<Rightarrow> js_error + response" where
  "coordinator_down history req = Inl (Thrown (js ''Failed to fetch''))"

definition sample_env ::
  "jsstring \<Rightarrow> (request list \<Rightarrow> request \<Rightarrow> js_error + response) \<Rightarrow> jsstring env" where
  "sample_env protocol coordinator =
     \<lparr>location_protocol = protocol, network = coordinator,
      journalIdFromString = sample_parse, journalIdToString = Inr\<rparr>"

section \<open>Facts about the built-ins and about \<open>newDocumentId\<close>\<close>

lemma uriUnescaped_ascii: "uriUnescaped c \<Longrightarrow> c \<le> 0x7E"
  unfolding uriUnescaped_def
  by (elim disjE conjE) (simp_all, (erule order_trans, simp)+)

lemma uriUnescaped_not_surrogate:
  assumes "uriUnescaped c"
  shows "\<not> isTrailingSurrogate c" and "\<not> isLeadingSurrogate c"
proof -
  have le: "c \<le> 0x7E" using assms by (rule uriUnescaped_ascii)
  have "\<not> 0xDC00 \<le> c"
  proof
    assume "0xDC00 \<le> c"
    then have "(0xDC00 :: 16 word) \<le> 0x7E" using le by (rule order_trans)
    then show False by simp
  qed
  then show "\<not> isTrailingSurrogate c" by (simp add: isTrailingSurrogate_def)
  have "\<not> 0xD800 \<le> c"
  proof
    assume "0xD800 \<le> c"
    then have "(0xD800 :: 16 word) \<le> 0x7E" using le by (rule order_trans)
    then show False by simp
  qed
  then show "\<not> isLeadingSurrogate c" by (simp add: isLeadingSurrogate_def)
qed

lemma isWellFormed_Cons:
  assumes "isWellFormed (c # cs)"
  shows "\<not> isTrailingSurrogate c"
    and "\<not> isLeadingSurrogate c \<Longrightarrow> isWellFormed cs"
    and "isLeadingSurrogate c \<Longrightarrow> \<exists>d ds. cs = d # ds \<and> isTrailingSurrogate d \<and> isWellFormed ds"
proof -
  show nt: "\<not> isTrailingSurrogate c"
    using assms by (simp split: if_splits)
  show "isWellFormed cs" if "\<not> isLeadingSurrogate c"
    using assms nt that by simp
  show "\<exists>d ds. cs = d # ds \<and> isTrailingSurrogate d \<and> isWellFormed ds" if "isLeadingSurrogate c"
    using assms nt that by (cases cs) simp_all
qed

lemma encodeURIComponent_wellFormed:
  "isWellFormed s \<Longrightarrow> \<exists>e. encodeURIComponent s = Inr e"
proof (induction s rule: encodeURIComponent.induct)
  case 1
  show ?case by simp
next
  case (2 c cs)
  note wf = isWellFormed_Cons [OF "2.prems"]
  consider (copied) "uriUnescaped c"
    | (pair) "\<not> uriUnescaped c" "isLeadingSurrogate c"
    | (single) "\<not> uriUnescaped c" "\<not> isLeadingSurrogate c"
    by blast
  then show ?case
  proof cases
    case copied
    then have "\<not> isLeadingSurrogate c" by (rule uriUnescaped_not_surrogate)
    then have "isWellFormed cs" by (rule wf(2))
    then obtain e where "encodeURIComponent cs = Inr e"
      using "2.IH"(1) [OF copied] by blast
    then show ?thesis using copied by (simp add: prepend_def)
  next
    case pair
    from wf(3) [OF pair(2)] obtain d ds where
      cs: "cs = d # ds" and d: "isTrailingSurrogate d" and ds: "isWellFormed ds"
      by blast
    from "2.IH"(2) [OF pair(1) wf(1) pair(2) cs d ds] obtain e where
      "encodeURIComponent ds = Inr e" by blast
    then show ?thesis using pair wf(1) cs d by (simp add: prepend_def)
  next
    case single
    from wf(2) [OF single(2)] have "isWellFormed cs" .
    with "2.IH"(3) [OF single(1) wf(1) single(2)] obtain e where
      "encodeURIComponent cs = Inr e" by blast
    then show ?thesis using single wf(1) by (simp add: prepend_def)
  qed
qed

lemma encodeURIComponent_URIError:
  "\<not> isWellFormed s \<Longrightarrow> encodeURIComponent s = Inl URIError"
proof (induction s rule: encodeURIComponent.induct)
  case 1
  then show ?case by simp
next
  case (2 c cs)
  consider (copied) "uriUnescaped c"
    | (trailing) "\<not> uriUnescaped c" "isTrailingSurrogate c"
    | (pair) "\<not> uriUnescaped c" "\<not> isTrailingSurrogate c" "isLeadingSurrogate c"
    | (single) "\<not> uriUnescaped c" "\<not> isTrailingSurrogate c" "\<not> isLeadingSurrogate c"
    by blast
  then show ?case
  proof cases
    case copied
    note ns = uriUnescaped_not_surrogate [OF copied]
    from "2.prems" ns have "\<not> isWellFormed cs" by simp
    then have "encodeURIComponent cs = Inl URIError" by (rule "2.IH"(1) [OF copied])
    then show ?thesis using copied by (simp add: prepend_def)
  next
    case trailing
    then show ?thesis by simp
  next
    case pair
    show ?thesis
    proof (cases cs)
      case Nil
      with pair show ?thesis by simp
    next
      case (Cons d ds)
      show ?thesis
      proof (cases "isTrailingSurrogate d")
        case True
        from "2.prems" pair Cons True have "\<not> isWellFormed ds" by simp
        then have "encodeURIComponent ds = Inl URIError"
          by (rule "2.IH"(2) [OF pair Cons True])
        then show ?thesis using pair Cons True by (simp add: prepend_def)
      next
        case False
        with pair Cons show ?thesis by simp
      qed
    qed
  next
    case single
    from "2.prems" single have "\<not> isWellFormed cs" by simp
    then have "encodeURIComponent cs = Inl URIError" by (rule "2.IH"(3) [OF single])
    then show ?thesis using single by (simp add: prepend_def)
  qed
qed

lemma newDocumentId_issues:
  "request_url env st (case name of None \<Rightarrow> [] | Some n \<Rightarrow> n) = Inr u \<Longrightarrow>
   fst (newDocumentId env name st) =
     st\<lparr>requests := requests st @ [\<lparr>http_method = js ''POST'', url = u\<rparr>]\<rparr>"
  by (simp add: newDocumentId_def Let_def split: sum.splits)

lemma newDocumentId_throws:
  "request_url env st (case name of None \<Rightarrow> [] | Some n \<Rightarrow> n) = Inl e \<Longrightarrow>
   newDocumentId env name st = (st, Inl e)"
  by (simp add: newDocumentId_def)

lemma newDocumentId_unpaired_surrogate:
  assumes "trim n \<noteq> []" and "\<not> isWellFormed n"
  shows "newDocumentId env (Some n) st = (st, Inl URIError)"
  using assms by (simp add: newDocumentId_throws request_url_def encodeURIComponent_URIError)

lemma js_append: "js a @ js b = js (a @ b)"
  by (simp add: js_def)

section \<open>Facts about the route table\<close>

lemma matchPath_length: "matchPath p segs = Some m \<Longrightarrow> length p = length segs"
  by (induction p segs arbitrary: m rule: matchPath.induct)
     (simp_all split: if_splits option.splits)

lemma router_unambiguous:
  assumes "r1 \<in> set (router env)" and "r2 \<in> set (router env)"
    and "matchPath (path r1) segs = Some m1" and "matchPath (path r2) segs = Some m2"
  shows "r1 = r2"
proof -
  have "length (path r1) = length (path r2)"
    using assms(3,4) by (simp add: matchPath_length)
  with assms(1,2) show ?thesis
    by (auto simp: router_def)
qed

lemma navigate_root: "navigate env [] st = loader_root env Map.empty st"
  by (simp add: navigate_def router_def)

lemma navigate_named:
  assumes "map toLowerASCII x = map toLowerASCII (js ''named'')" and "name \<noteq> []"
  shows "navigate env [x, name] st = loader_named env [''name'' \<mapsto> name] st"
  using assms by (simp add: navigate_def router_def)

lemma navigate_docId:
  assumes "s \<noteq> []"
  shows "navigate env [s] st = DocRoute env [''docId'' \<mapsto> s] st"
  using assms by (simp add: navigate_def router_def)

lemma newDocumentId_cfg: "cfg (fst (newDocumentId env name st)) = cfg st"
  by (simp add: newDocumentId_def Let_def split: sum.splits)

lemma redirect_to_state: "fst (redirect_to env i st) = st"
  by (simp add: redirect_to_def split: sum.splits)

lemma loader_root_state: "fst (loader_root env ps st) = fst (newDocumentId env None st)"
  by (simp add: loader_root_def redirect_to_state split: prod.splits sum.splits)

lemma loader_named_state:
  "fst (loader_named env ps st) = fst (newDocumentId env (ps ''name'') st)"
  by (simp add: loader_named_def redirect_to_state split: prod.splits sum.splits)

lemma DocRoute_cfg: "cfg (fst (DocRoute env ps st)) = cfg st"
  by (simp add: DocRoute_def missing_docId_def split: option.splits sum.splits)

lemma DocRoute_requests: "requests (fst (DocRoute env ps st)) = requests st"
  by (simp add: DocRoute_def missing_docId_def split: option.splits sum.splits)

lemma matchRoutes_mem: "matchRoutes rs segs = Some (r, ps) \<Longrightarrow> r \<in> set rs"
  by (induction rs) (auto split: option.splits)

lemma navigate_cfg: "cfg (fst (navigate env segs st)) = cfg st"
proof (cases "matchRoutes (router env) segs")
  case None
  then show ?thesis by (simp add: navigate_def)
next
  case (Some a)
  obtain r ps where a: "a = (r, ps)" by (cases a)
  from Some a have "r \<in> set (router env)" by (simp add: matchRoutes_mem)
  then consider "resolution r = Loader (loader_root env)"
    | "resolution r = Loader (loader_named env)"
    | "resolution r = Element (DocRoute env)"
    by (auto simp: router_def)
  then show ?thesis
    using Some a
    by cases (simp_all add: navigate_def loader_root_state loader_named_state
        newDocumentId_cfg DocRoute_cfg)
qed

lemma navigations_cfg: "cfg (navigations env locs st) = cfg st"
  by (induction locs arbitrary: st) (simp_all add: navigate_cfg)

lemma newDocumentId_Inr_requests:
  assumes "newDocumentId env name_arg st = (st', Inr i)"
  shows "\<exists>u. request_url env st (case name_arg of None \<Rightarrow> [] | Some n \<Rightarrow> n) = Inr u \<and>
             st' = st\<lparr>requests := requests st @ [\<lparr>http_method = js ''POST'', url = u\<rparr>]\<rparr>"
  using assms by (auto simp: newDocumentId_def Let_def split: sum.splits)

lemma request_url_no_name:
  "request_url env st [] =
     Inr (location_protocol env @ js ''//'' @ COORDINATOR_URL (cfg st) @ js ''/new'')"
  by (simp add: request_url_def trim_def)

lemma navigate_creating:
  assumes "name_arg \<noteq> Some []"
    and "map toLowerASCII x = map toLowerASCII (js ''named'')"
  shows "navigate env (case name_arg of None \<Rightarrow> [] | Some n \<Rightarrow> [x, n]) st =
           (case newDocumentId env name_arg st of
              (st', Inl e) \<Rightarrow> (st', Inl e)
            | (st', Inr docId) \<Rightarrow> redirect_to env docId st')"
proof (cases name_arg)
  case None
  then show ?thesis by (simp add: navigate_root loader_root_def)
next
  case (Some n)
  with assms have "n \<noteq> []" by simp
  with assms(2) Some show ?thesis
    by (simp add: navigate_named loader_named_def)
qed

lemma navigate_root_one_request:
  "requests (fst (navigate env [] st)) =
     requests st @
       [\<lparr>http_method = js ''POST'',
         url = location_protocol env @ js ''//'' @ COORDINATOR_URL (cfg st) @ js ''/new''\<rparr>]"
  by (simp add: navigate_root loader_root_state newDocumentId_issues request_url_no_name)

section \<open>The sample environments, evaluated\<close>

lemma sample_env_sel:
  "location_protocol (sample_env p c) = p"
  "network (sample_env p c) = c"
  "journalIdFromString (sample_env p c) = sample_parse"
  "journalIdToString (sample_env p c) = Inr"
  by (simp_all add: sample_env_def)

lemma start_sel:
  "requests (start h) = []"
  "console (start h) = []"
  "cfg (start h) = module_init h"
  by (simp_all add: start_def)

lemma sample_parse_abc123: "sample_parse (js ''abc123'') = Inr (js ''abc123'')"
  by code_simp

lemma module_init_localhost:
  "COORDINATOR_URL (module_init (js ''localhost'')) = js ''localhost:8787''"
  "isLocalhost (module_init (js ''localhost''))"
  by code_simp+

lemma module_init_production:
  "COORDINATOR_URL (module_init (js ''app.example.com'')) = js ''sqlsync.orbitinghail.workers.dev''"
  "\<not> isLocalhost (module_init (js ''app.example.com''))"
  by code_simp+

lemma request_url_local_no_name:
  "request_url (sample_env (js ''http:'') c) (start (js ''localhost'')) [] =
     Inr (js ''http://localhost:8787/new'')"
  by (simp add: request_url_no_name sample_env_sel start_sel module_init_localhost js_append)

lemma newDocumentId_sample:
  assumes "request_url (sample_env p c) st (case name_arg of None \<Rightarrow> [] | Some n \<Rightarrow> n) = Inr u"
    and "c (requests st) \<lparr>http_method = js ''POST'', url = u\<rparr> = Inr \<lparr>status = k, body = Inr (js ''abc123'')\<rparr>"
  shows "newDocumentId (sample_env p c) name_arg st =
           (st\<lparr>requests := requests st @ [\<lparr>http_method = js ''POST'', url = u\<rparr>]\<rparr>,
            Inr (js ''abc123''))"
  using assms by (simp add: newDocumentId_def sample_env_sel sample_parse_abc123)

section \<open>The claims\<close>

text \<open>
  C1, as amended. For every document name \<open>n\<close> that is a well-formed string (no unpaired
  surrogate; the empty and the whitespace-only names are well-formed), \<open>newDocumentId n\<close>
  calls \<open>fetch\<close> exactly once, with method POST. The URL ends in \<open>/new\<close>, without a name
  segment, if and only if \<open>n.trim()\<close> is empty; otherwise it ends in \<open>/new/e\<close>, where \<open>e\<close>
  is \<open>encodeURIComponent n\<close>, applied once.
\<close>

theorem createDocument_request:
  assumes "isWellFormed n"
  shows "\<exists>e. encodeURIComponent n = Inr e \<and>
           requests (fst (newDocumentId env (Some n) st)) =
             requests st @
               [\<lparr>http_method = js ''POST'',
                 url = location_protocol env @ js ''//'' @ COORDINATOR_URL (cfg st) @ js ''/new'' @
                       (if trim n = [] then [] else js ''/'' @ e)\<rparr>]"
proof -
  from assms obtain e where e: "encodeURIComponent n = Inr e"
    using encodeURIComponent_wellFormed by blast
  have "request_url env st n =
          Inr (location_protocol env @ js ''//'' @ COORDINATOR_URL (cfg st) @ js ''/new'' @
               (if trim n = [] then [] else js ''/'' @ e))"
    by (simp add: request_url_def e)
  then have "fst (newDocumentId env (Some n) st) =
      st\<lparr>requests := requests st @
        [\<lparr>http_method = js ''POST'',
          url = location_protocol env @ js ''//'' @ COORDINATOR_URL (cfg st) @ js ''/new'' @
                (if trim n = [] then [] else js ''/'' @ e)\<rparr>]\<rparr>"
    by (intro newDocumentId_issues) simp
  with e show ?thesis by simp
qed

theorem createDocument_request_witness:
  "isWellFormed (js ''Trip Planner'') \<and>
   requests (fst (newDocumentId (sample_env (js ''http:'') coordinator_ok)
                    (Some (js ''Trip Planner'')) (start (js ''localhost'')))) =
     [\<lparr>http_method = js ''POST'', url = js ''http://localhost:8787/new/Trip%20Planner''\<rparr>] \<and>
   isWellFormed (js ''  '') \<and>
   requests (fst (newDocumentId (sample_env (js ''http:'') coordinator_ok)
                    (Some (js ''  '')) (start (js ''localhost'')))) =
     [\<lparr>http_method = js ''POST'', url = js ''http://localhost:8787/new''\<rparr>]"
proof -
  let ?E = "sample_env (js ''http:'') coordinator_ok"
  let ?S = "start (js ''localhost'')"
  have p: "location_protocol ?E = js ''http:''" by (simp add: sample_env_def)
  have c: "COORDINATOR_URL (cfg ?S) = js ''localhost:8787''" by code_simp
  have r: "requests ?S = []" by (simp add: start_def)
  have wf1: "isWellFormed (js ''Trip Planner'')" by code_simp
  have enc1: "encodeURIComponent (js ''Trip Planner'') = Inr (js ''Trip%20Planner'')"
    by code_simp
  have t1: "trim (js ''Trip Planner'') \<noteq> []" by code_simp
  have wf2: "isWellFormed (js ''  '')" by code_simp
  have t2: "trim (js ''  '') = []" by code_simp
  have one: "requests (fst (newDocumentId ?E (Some (js ''Trip Planner'')) ?S)) =
     [\<lparr>http_method = js ''POST'', url = js ''http://localhost:8787/new/Trip%20Planner''\<rparr>]"
    using createDocument_request [OF wf1, of ?E ?S]
    by (simp add: enc1 t1 p c r js_append)
  have two: "requests (fst (newDocumentId ?E (Some (js ''  '')) ?S)) =
     [\<lparr>http_method = js ''POST'', url = js ''http://localhost:8787/new''\<rparr>]"
    using createDocument_request [OF wf2, of ?E ?S]
    by (simp add: t2 p c r js_append)
  show ?thesis by (intro conjI wf1 one wf2 two)
qed

text \<open>
  C1, as stated, fails for a name with an unpaired surrogate: for the name that consists of
  the single code unit D800 the trimmed name is not empty, \<open>encodeURIComponent\<close> throws
  URIError, and \<open>fetch\<close> is never called.
\<close>

theorem createDocument_request_counterexample:
  "snd (newDocumentId (sample_env (js ''http:'') coordinator_ok) (Some [0xD800])
          (start (js ''localhost''))) = Inl URIError \<and>
   requests (fst (newDocumentId (sample_env (js ''http:'') coordinator_ok) (Some [0xD800])
                    (start (js ''localhost'')))) = []"
proof -
  have t: "trim [0xD800] \<noteq> []" by code_simp
  have wf: "\<not> isWellFormed [0xD800]" by code_simp
  show ?thesis
    by (simp add: newDocumentId_unpaired_surrogate [OF t wf] start_def)
qed

text \<open>
  C2. For a navigation to \<open>/\<close> (\<open>name_arg = None\<close>) and for a navigation to
  \<open>/named/:name\<close> (\<open>name_arg = Some name\<close>): the loader calls \<open>newDocumentId\<close> with no
  name, respectively with the \<open>name\<close> parameter; when that call returns the identifier
  \<open>i\<close>, the loader returns the redirect to \<open>/\<close> followed by \<open>journalIdToString i\<close>, and
  exactly one request has been issued; for \<open>/\<close> its URL has no name segment.
\<close>

theorem loaders_redirect:
  assumes "name_arg \<noteq> Some []"
    and "map toLowerASCII x = map toLowerASCII (js ''named'')"
    and "newDocumentId env name_arg st = (st', Inr i)"
    and "journalIdToString env i = Inr s"
  shows "navigate env (case name_arg of None \<Rightarrow> [] | Some n \<Rightarrow> [x, n]) st =
           (st', Inr (Redirect (js ''/'' @ s))) \<and>
         (\<exists>u. requests st' = requests st @ [\<lparr>http_method = js ''POST'', url = u\<rparr>] \<and>
              (name_arg = None \<longrightarrow>
                 u = location_protocol env @ js ''//'' @ COORDINATOR_URL (cfg st) @ js ''/new''))"
proof -
  have "navigate env (case name_arg of None \<Rightarrow> [] | Some n \<Rightarrow> [x, n]) st =
          (st', Inr (Redirect (js ''/'' @ s)))"
    using assms by (simp add: navigate_creating redirect_to_def)
  moreover
  from newDocumentId_Inr_requests [OF assms(3)] obtain u where
    u: "request_url env st (case name_arg of None \<Rightarrow> [] | Some n \<Rightarrow> n) = Inr u" and
    st': "st' = st\<lparr>requests := requests st @ [\<lparr>http_method = js ''POST'', url = u\<rparr>]\<rparr>"
    by blast
  have "name_arg = None \<longrightarrow>
          u = location_protocol env @ js ''//'' @ COORDINATOR_URL (cfg st) @ js ''/new''"
    using u by (auto simp: request_url_no_name)
  with st' have "\<exists>u. requests st' = requests st @ [\<lparr>http_method = js ''POST'', url = u\<rparr>] \<and>
              (name_arg = None \<longrightarrow>
                 u = location_protocol env @ js ''//'' @ COORDINATOR_URL (cfg st) @ js ''/new'')"
    by simp
  ultimately show ?thesis by (rule conjI)
qed

theorem loaders_redirect_witness:
  "navigate (sample_env (js ''http:'') coordinator_ok) [] (start (js ''localhost'')) =
     ((start (js ''localhost''))
        \<lparr>requests := [\<lparr>http_method = js ''POST'', url = js ''http://localhost:8787/new''\<rparr>]\<rparr>,
      Inr (Redirect (js ''/abc123''))) \<and>
   navigate (sample_env (js ''http:'') coordinator_ok) [js ''named'', js ''Trip Planner'']
       (start (js ''localhost'')) =
     ((start (js ''localhost''))
        \<lparr>requests :=
           [\<lparr>http_method = js ''POST'', url = js ''http://localhost:8787/new/Trip%20Planner''\<rparr>]\<rparr>,
      Inr (Redirect (js ''/abc123'')))"
proof -
  let ?E = "sample_env (js ''http:'') coordinator_ok"
  let ?S = "start (js ''localhost'')"
  let ?r1 = "\<lparr>http_method = js ''POST'', url = js ''http://localhost:8787/new''\<rparr>"
  let ?r2 = "\<lparr>http_method = js ''POST'', url = js ''http://localhost:8787/new/Trip%20Planner''\<rparr>"
  have named: "map toLowerASCII (js ''named'') = map toLowerASCII (js ''named'')" by simp
  have to: "journalIdToString ?E (js ''abc123'') = Inr (js ''abc123'')"
    by (simp add: sample_env_sel)
  have n1: "newDocumentId ?E None ?S = (?S\<lparr>requests := requests ?S @ [?r1]\<rparr>, Inr (js ''abc123''))"
    by (rule newDocumentId_sample) (simp_all add: request_url_local_no_name coordinator_ok_def)
  have t: "trim (js ''Trip Planner'') \<noteq> []" by code_simp
  have enc: "encodeURIComponent (js ''Trip Planner'') = Inr (js ''Trip%20Planner'')"
    by code_simp
  have u2: "request_url ?E ?S (js ''Trip Planner'') = Inr (js ''http://localhost:8787/new/Trip%20Planner'')"
    by (simp add: request_url_def t enc sample_env_sel start_sel module_init_localhost js_append)
  have n2: "newDocumentId ?E (Some (js ''Trip Planner'')) ?S =
              (?S\<lparr>requests := requests ?S @ [?r2]\<rparr>, Inr (js ''abc123''))"
    by (rule newDocumentId_sample) (simp_all add: u2 coordinator_ok_def)
  have ne: "Some (js ''Trip Planner'') \<noteq> Some []" by (simp add: js_def)
  have a: "navigate ?E [] ?S = (?S\<lparr>requests := requests ?S @ [?r1]\<rparr>, Inr (Redirect (js ''/'' @ js ''abc123'')))"
    using loaders_redirect [where name_arg = None and x = "js ''named''", OF _ named n1 to]
    by simp
  have b: "navigate ?E [js ''named'', js ''Trip Planner''] ?S =
             (?S\<lparr>requests := requests ?S @ [?r2]\<rparr>, Inr (Redirect (js ''/'' @ js ''abc123'')))"
    using loaders_redirect [where name_arg = "Some (js ''Trip Planner'')" and x = "js ''named''",
        OF ne named n2 to]
    by simp
  from a b show ?thesis by (simp add: start_sel js_append)
qed

text \<open>
  C3. For every value of \<open>location.hostname\<close> at load time, \<open>COORDINATOR_URL_WS\<close> is
  \<open>ws://{hostname}:8787\<close> when the hostname is \<open>localhost\<close> or starts with \<open>192.168\<close>,
  and \<open>wss://sqlsync.orbitinghail.workers.dev\<close> otherwise. It is computed when the module
  is loaded and has the same value after any sequence of navigations.
\<close>

theorem coordinator_ws_url:
  "COORDINATOR_URL_WS (cfg (navigations env locs (start hostname))) =
     (if hostname = js ''localhost'' \<or> startsWith hostname (js ''192.168'')
      then js ''ws://'' @ hostname @ js '':8787''
      else js ''wss://sqlsync.orbitinghail.workers.dev'')"
  by (simp add: navigations_cfg start_def module_init_def Let_def js_def)

lemma module_init_examples:
  "COORDINATOR_URL_WS (module_init (js ''192.168.1.5'')) = js ''ws://192.168.1.5:8787''"
  "COORDINATOR_URL_WS (module_init (js ''localhost'')) = js ''ws://localhost:8787''"
  "COORDINATOR_URL_WS (module_init (js ''app.example.com'')) =
     js ''wss://sqlsync.orbitinghail.workers.dev''"
  by code_simp+

text \<open>
  C4, as amended. When the request URL can be built, a rejected \<open>fetch\<close>, a rejected
  \<open>response.text()\<close> or a body on which the codec throws makes \<open>newDocumentId\<close> fail with
  that error, and the calling route loader fails with the same error; nothing is caught.
  Exactly one request has been issued: there is no retry. The status of the response is
  not among the causes of failure.
\<close>

theorem creation_failure_propagates:
  assumes "name_arg \<noteq> Some []"
    and "map toLowerASCII x = map toLowerASCII (js ''named'')"
    and "request_url env st (case name_arg of None \<Rightarrow> [] | Some n \<Rightarrow> n) = Inr u"
    and "network env (requests st) \<lparr>http_method = js ''POST'', url = u\<rparr> = Inl e \<or>
         (\<exists>resp. network env (requests st) \<lparr>http_method = js ''POST'', url = u\<rparr> = Inr resp \<and>
            (body resp = Inl e \<or>
             (\<exists>t. body resp = Inr t \<and> journalIdFromString env t = Inl e)))"
  shows "newDocumentId env name_arg st =
           (st\<lparr>requests := requests st @ [\<lparr>http_method = js ''POST'', url = u\<rparr>]\<rparr>, Inl e) \<and>
         navigate env (case name_arg of None \<Rightarrow> [] | Some n \<Rightarrow> [x, n]) st =
           (st\<lparr>requests := requests st @ [\<lparr>http_method = js ''POST'', url = u\<rparr>]\<rparr>, Inl e)"
proof -
  have "newDocumentId env name_arg st =
          (st\<lparr>requests := requests st @ [\<lparr>http_method = js ''POST'', url = u\<rparr>]\<rparr>, Inl e)"
    using assms(3,4) by (auto simp: newDocumentId_def Let_def)
  then show ?thesis
    using assms(1,2) by (simp add: navigate_creating)
qed

theorem creation_failure_propagates_witness:
  "navigate (sample_env (js ''http:'') coordinator_down) [] (start (js ''localhost'')) =
     ((start (js ''localhost''))
        \<lparr>requests := [\<lparr>http_method = js ''POST'', url = js ''http://localhost:8787/new''\<rparr>]\<rparr>,
      Inl (Thrown (js ''Failed to fetch''))) \<and>
   navigate (sample_env (js ''http:'') coordinator_html) [] (start (js ''localhost'')) =
     ((start (js ''localhost''))
        \<lparr>requests := [\<lparr>http_method = js ''POST'', url = js ''http://localhost:8787/new''\<rparr>]\<rparr>,
      Inl (Thrown (js ''invalid journal id'')))"
proof -
  let ?D = "sample_env (js ''http:'') coordinator_down"
  let ?H = "sample_env (js ''http:'') coordinator_html"
  let ?S = "start (js ''localhost'')"
  let ?r1 = "\<lparr>http_method = js ''POST'', url = js ''http://localhost:8787/new''\<rparr>"
  let ?fetch = "Thrown (js ''Failed to fetch'')"
  let ?codec = "Thrown (js ''invalid journal id'')"
  have named: "map toLowerASCII (js ''named'') = map toLowerASCII (js ''named'')" by simp
  have uD: "request_url ?D ?S (case None of None \<Rightarrow> [] | Some n \<Rightarrow> n) =
              Inr (js ''http://localhost:8787/new'')"
    by (simp add: request_url_local_no_name)
  have uH: "request_url ?H ?S (case None of None \<Rightarrow> [] | Some n \<Rightarrow> n) =
              Inr (js ''http://localhost:8787/new'')"
    by (simp add: request_url_local_no_name)
  have down: "network ?D (requests ?S) ?r1 = Inl ?fetch \<or>
         (\<exists>resp. network ?D (requests ?S) ?r1 = Inr resp \<and>
            (body resp = Inl ?fetch \<or>
             (\<exists>t. body resp = Inr t \<and> journalIdFromString ?D t = Inl ?fetch)))"
    by (simp add: sample_env_sel coordinator_down_def)
  have "sample_parse (js ''<html></html>'') = Inl ?codec" by code_simp
  then have html: "network ?H (requests ?S) ?r1 = Inl ?codec \<or>
         (\<exists>resp. network ?H (requests ?S) ?r1 = Inr resp \<and>
            (body resp = Inl ?codec \<or>
             (\<exists>t. body resp = Inr t \<and> journalIdFromString ?H t = Inl ?codec)))"
    by (simp add: sample_env_sel coordinator_html_def)
  from creation_failure_propagates [where name_arg = None and x = "js ''named''", OF _ named uD down]
    creation_failure_propagates [where name_arg = None and x = "js ''named''", OF _ named uH html]
  show ?thesis by (simp add: start_sel)
qed

text \<open>
  C4, as stated, fails for a non-success status: the code never reads \<open>response.ok\<close> or
  \<open>response.status\<close>. A coordinator that answers 500 with a body the codec parses makes
  \<open>newDocumentId\<close> return the identifier.
\<close>

theorem non_success_status_counterexample:
  "network (sample_env (js ''http:'') coordinator_500) []
     \<lparr>http_method = js ''POST'', url = js ''http://localhost:8787/new''\<rparr> =
     Inr \<lparr>status = 500, body = Inr (js ''abc123'')\<rparr> \<and>
   newDocumentId (sample_env (js ''http:'') coordinator_500) None (start (js ''localhost'')) =
     ((start (js ''localhost''))
        \<lparr>requests := [\<lparr>http_method = js ''POST'', url = js ''http://localhost:8787/new''\<rparr>]\<rparr>,
      Inr (js ''abc123''))"
proof -
  let ?E = "sample_env (js ''http:'') coordinator_500"
  let ?S = "start (js ''localhost'')"
  let ?r1 = "\<lparr>http_method = js ''POST'', url = js ''http://localhost:8787/new''\<rparr>"
  have "newDocumentId ?E None ?S = (?S\<lparr>requests := requests ?S @ [?r1]\<rparr>, Inr (js ''abc123''))"
    by (rule newDocumentId_sample) (simp_all add: request_url_local_no_name coordinator_500_def)
  then show ?thesis
    by (simp add: start_sel sample_env_sel coordinator_500_def)
qed

text \<open>
  C5. When the \<open>docId\<close> parameter is absent or empty, \<open>DocRoute\<close> returns the red
  \<open>pre\<close> element with the text \<open>ERROR: doc id not found in params\<close>, writes one entry to
  the console, does not throw, and calls neither the codec nor \<open>fetch\<close>.
\<close>

theorem DocRoute_missing_docId:
  assumes "ps ''docId'' = None \<or> ps ''docId'' = Some []"
  shows "DocRoute env ps st =
           (st\<lparr>console := console st @ [js ''doc id not found in params'']\<rparr>,
            Inr (Render (Pre (js ''red'') (js ''ERROR: doc id not found in params'')))) \<and>
         requests (fst (DocRoute env ps st)) = requests st"
  using assms by (auto simp: DocRoute_def missing_docId_def falsy_def)

theorem DocRoute_missing_docId_witness:
  "DocRoute (sample_env (js ''http:'') coordinator_ok) Map.empty (start (js ''localhost'')) =
     ((start (js ''localhost''))\<lparr>console := [js ''doc id not found in params'']\<rparr>,
      Inr (Render (Pre (js ''red'') (js ''ERROR: doc id not found in params'')))) \<and>
   DocRoute (sample_env (js ''http:'') coordinator_ok) [''docId'' \<mapsto> []] (start (js ''localhost'')) =
     ((start (js ''localhost''))\<lparr>console := [js ''doc id not found in params'']\<rparr>,
      Inr (Render (Pre (js ''red'') (js ''ERROR: doc id not found in params''))))"
proof -
  let ?E = "sample_env (js ''http:'') coordinator_ok"
  let ?S = "start (js ''localhost'')"
  have c: "console ?S = []" by (simp add: start_def)
  have a: "(Map.empty :: params) ''docId'' = None \<or> (Map.empty :: params) ''docId'' = Some []"
    by simp
  have b: "[''docId'' \<mapsto> []] ''docId'' = None \<or> [''docId'' \<mapsto> ([] :: jsstring)] ''docId'' = Some []"
    by simp
  show ?thesis
    using DocRoute_missing_docId [where ps = Map.empty and env = ?E and st = ?S]
      DocRoute_missing_docId [where ps = "[''docId'' \<mapsto> []]" and env = ?E and st = ?S]
    by (simp add: c)
qed

text \<open>
  C6. A navigation to \<open>/s\<close>, where \<open>s\<close> is a non-empty segment that the codec parses to
  the identifier \<open>i\<close>, renders \<open>App\<close> with \<open>docId = i\<close>; the state, and so the list of
  requests, is unchanged.
\<close>

theorem navigate_to_document:
  assumes "s \<noteq> []" and "journalIdFromString env s = Inr i"
  shows "navigate env [s] st = (st, Inr (Render (App i)))"
  using assms by (simp add: navigate_docId DocRoute_def falsy_def)

theorem navigate_to_document_witness:
  "js ''abc123'' \<noteq> [] \<and>
   journalIdFromString (sample_env (js ''http:'') coordinator_ok) (js ''abc123'') = Inr (js ''abc123'') \<and>
   navigate (sample_env (js ''http:'') coordinator_ok) [js ''abc123''] (start (js ''localhost'')) =
     (start (js ''localhost''), Inr (Render (App (js ''abc123''))))"
proof -
  let ?E = "sample_env (js ''http:'') coordinator_ok"
  have ne: "js ''abc123'' \<noteq> []" by (simp add: js_def)
  have "sample_parse (js ''abc123'') = Inr (js ''abc123'')" by code_simp
  then have parse: "journalIdFromString ?E (js ''abc123'') = Inr (js ''abc123'')"
    by (simp add: sample_env_def)
  from navigate_to_document [OF ne parse] ne parse show ?thesis by simp
qed

text \<open>
  C7, as amended. The scheme of the URL handed to \<open>fetch\<close> is \<open>location.protocol\<close> of the
  page, read when \<open>newDocumentId\<close> runs: every request it issues goes to
  \<open>{location.protocol}//{COORDINATOR_URL}/new...\<close>, whatever \<open>isLocalhost\<close> is.
\<close>

theorem request_scheme_is_page_protocol:
  "requests (fst (newDocumentId env name_arg st)) = requests st \<or>
   (\<exists>rest. requests (fst (newDocumentId env name_arg st)) =
      requests st @
        [\<lparr>http_method = js ''POST'',
          url = location_protocol env @ js ''//'' @ COORDINATOR_URL (cfg st) @ js ''/new'' @ rest\<rparr>])"
proof (cases "request_url env st (case name_arg of None \<Rightarrow> [] | Some n \<Rightarrow> n)")
  case (Inl e)
  then show ?thesis by (simp add: newDocumentId_throws)
next
  case (Inr u)
  then obtain rest where
    "u = location_protocol env @ js ''//'' @ COORDINATOR_URL (cfg st) @ js ''/new'' @ rest"
    by (auto simp: request_url_def Let_def split: if_splits sum.splits)
  with Inr show ?thesis by (simp add: newDocumentId_issues)
qed

text \<open>
  C7, as stated, fails: a page served over \<open>http:\<close> from a host that is not local posts
  to \<open>http://sqlsync.orbitinghail.workers.dev/new\<close>, and a page served over \<open>https:\<close> from
  \<open>localhost\<close> posts to \<open>https://localhost:8787/new\<close>.
\<close>

theorem http_scheme_counterexample:
  "\<not> isLocalhost (cfg (start (js ''app.example.com''))) \<and>
   requests (fst (newDocumentId (sample_env (js ''http:'') coordinator_ok) None
                    (start (js ''app.example.com'')))) =
     [\<lparr>http_method = js ''POST'', url = js ''http://sqlsync.orbitinghail.workers.dev/new''\<rparr>] \<and>
   isLocalhost (cfg (start (js ''localhost''))) \<and>
   requests (fst (newDocumentId (sample_env (js ''https:'') coordinator_ok) None
                    (start (js ''localhost'')))) =
     [\<lparr>http_method = js ''POST'', url = js ''https://localhost:8787/new''\<rparr>]"
proof -
  have a: "request_url (sample_env (js ''http:'') coordinator_ok) (start (js ''app.example.com''))
             (case None of None \<Rightarrow> [] | Some n \<Rightarrow> n) =
           Inr (js ''http://sqlsync.orbitinghail.workers.dev/new'')"
    by (simp add: request_url_no_name sample_env_sel start_sel module_init_production js_append)
  have b: "request_url (sample_env (js ''https:'') coordinator_ok) (start (js ''localhost''))
             (case None of None \<Rightarrow> [] | Some n \<Rightarrow> n) =
           Inr (js ''https://localhost:8787/new'')"
    by (simp add: request_url_no_name sample_env_sel start_sel module_init_localhost js_append)
  show ?thesis
    by (simp add: newDocumentId_issues [OF a] newDocumentId_issues [OF b] start_sel
        module_init_production module_init_localhost)
qed

text \<open>
  C9. For a non-empty \<open>docId\<close> parameter \<open>DocRoute\<close> hands the string as it is to
  \<open>journalIdFromString\<close>: an exception of the codec leaves the component, a parsed identifier
  is rendered with \<open>App\<close>, and the inline error element is not produced. So the inline
  error is rendered only for a missing or empty parameter.
\<close>

theorem DocRoute_parses_nonempty:
  assumes "ps ''docId'' = Some d" and "d \<noteq> []"
  shows "DocRoute env ps st =
           (st, case journalIdFromString env d of
                  Inl e \<Rightarrow> Inl e
                | Inr i \<Rightarrow> Inr (Render (App i))) \<and>
         snd (DocRoute env ps st) \<noteq> Inr (Render (Pre c t))"
  using assms by (simp add: DocRoute_def falsy_def split: sum.splits)

theorem DocRoute_parses_nonempty_witness:
  "[''docId'' \<mapsto> js ''not valid!''] ''docId'' = Some (js ''not valid!'') \<and>
   js ''not valid!'' \<noteq> [] \<and>
   DocRoute (sample_env (js ''http:'') coordinator_ok) [''docId'' \<mapsto> js ''not valid!'']
     (start (js ''localhost'')) =
     (start (js ''localhost''), Inl (Thrown (js ''invalid journal id'')))"
proof -
  let ?E = "sample_env (js ''http:'') coordinator_ok"
  have a: "[''docId'' \<mapsto> js ''not valid!''] ''docId'' = Some (js ''not valid!'')" by simp
  have ne: "js ''not valid!'' \<noteq> []" by (simp add: js_def)
  have "sample_parse (js ''not valid!'') = Inl (Thrown (js ''invalid journal id''))"
    by code_simp
  then have parse:
    "journalIdFromString ?E (js ''not valid!'') = Inl (Thrown (js ''invalid journal id''))"
    by (simp add: sample_env_def)
  from DocRoute_parses_nonempty
         [where ps = "[''docId'' \<mapsto> js ''not valid!'']" and d = "js ''not valid!''"
            and env = ?E and st = "start (js ''localhost'')", OF a ne] a ne
  show ?thesis by (simp add: parse)
qed

text \<open>
  C10. For a name whose trimmed form is not empty, the segment after \<open>/new/\<close> in the request
  that is sent is the percent-encoding of the name as given, leading and trailing whitespace
  included: the name \<open>" plan"\<close> gives \<open>%20plan\<close>. \<open>trim\<close> only decides whether there is a
  segment. (When \<open>encodeURIComponent\<close> throws, nothing is sent.)
\<close>

theorem name_segment_untrimmed:
  assumes "trim name \<noteq> []"
  shows "requests (fst (newDocumentId env (Some name) st)) =
           (case encodeURIComponent name of
              Inl err \<Rightarrow> requests st
            | Inr e \<Rightarrow>
                requests st @
                  [\<lparr>http_method = js ''POST'',
                    url = location_protocol env @ js ''//'' @ COORDINATOR_URL (cfg st) @
                          js ''/new/'' @ e\<rparr>])"
proof (cases "encodeURIComponent name")
  case (Inl err)
  with assms have "request_url env st name = Inl err"
    by (simp add: request_url_def)
  then show ?thesis
    using Inl by (simp add: newDocumentId_throws)
next
  case (Inr e)
  with assms have "request_url env st name =
          Inr (location_protocol env @ js ''//'' @ COORDINATOR_URL (cfg st) @ js ''/new/'' @ e)"
    by (simp add: request_url_def js_def)
  then show ?thesis
    using Inr by (simp add: newDocumentId_issues)
qed

theorem name_segment_untrimmed_witness:
  "trim (js '' plan'') \<noteq> [] \<and>
   encodeURIComponent (js '' plan'') = Inr (js ''%20plan'') \<and>
   requests (fst (newDocumentId (sample_env (js ''https:'') coordinator_ok) (Some (js '' plan''))
                    (start (js ''app.example.com'')))) =
     [\<lparr>http_method = js ''POST'',
       url = js ''https://sqlsync.orbitinghail.workers.dev/new/%20plan''\<rparr>]"
proof -
  let ?E = "sample_env (js ''https:'') coordinator_ok"
  let ?S = "start (js ''app.example.com'')"
  have t: "trim (js '' plan'') \<noteq> []" by code_simp
  have enc: "encodeURIComponent (js '' plan'') = Inr (js ''%20plan'')" by code_simp
  have p: "location_protocol ?E = js ''https:''" by (simp add: sample_env_def)
  have c: "COORDINATOR_URL (cfg ?S) = js ''sqlsync.orbitinghail.workers.dev''" by code_simp
  have r: "requests ?S = []" by (simp add: start_def)
  from name_segment_untrimmed [OF t, of ?E ?S] t enc show ?thesis
    by (simp add: p c r js_append)
qed

end
